theory Spec2Isabelle
  imports Main
begin

section \<open>Data model of the call hook (useAgoraCall)\<close>

datatype CallState = IDLE | CALLING | RINGING | CONNECTED | ENDED

datatype SignalType = INCOMING_CALL | CALL_ACCEPTED | CALL_DECLINED | CALL_ENDED

text \<open>
  The interface \<open>CallSignal\<close>. The field names carry the prefix \<open>sig_\<close> because
  \<open>from\<close> and \<open>type\<close> are not available as field names.
\<close>

record CallSignal =
  sig_type :: SignalType
  sig_from :: string
  sig_to :: string
  sig_channel :: string
  sig_timestamp :: int
  sig_callId :: string

text \<open>
  The React state of the hook together with the ref \<open>currentCallIdRef\<close>. The fields
  that only drive the settings screen (\<open>targetUserIds\<close>, \<open>showSettings\<close>,
  \<open>siteSettings\<close>, \<open>isClient\<close>, \<open>rtmLoaded\<close>) are read by none of the call handlers
  and are left out.
\<close>

record hook =
  callState :: CallState
  currentCall :: "CallSignal option"
  error :: "string option"
  userId :: string
  currentTargetUserId :: string
  channel :: string
  showVideoCall :: bool
  isConnected :: bool
  currentCallIdRef :: "string option"

text \<open>
  A thrown value: an instance of \<open>Error\<close> with its message, or anything else
  (the messaging SDK may reject with a plain object).
\<close>

datatype thrown = JsError string | NonError

text \<open>
  What the surroundings decide when a handler runs: the two readings of \<open>Date.now()\<close>
  (one in \<open>generateCallId\<close>, one in \<open>sendCallSignal\<close>), the characters cut from
  \<open>Math.random().toString(36)\<close>, and how the attempt to reach the peer ends:
  \<open>sendMessageToPeer\<close> resolves, \<open>clientRef.current?.()\<close> gives no client, or
  \<open>sendMessageToPeer\<close> rejects with a thrown value.
\<close>

datatype send_outcome =
    Delivered
  | NoClient
  | SendRejected thrown

record env =
  idTime :: nat
  idSuffix :: string
  sigTime :: int
  outcome :: send_outcome

text \<open>
  Everything a handler does besides updating the state, in program order. The values
  the closure of a handler reads are those of the state it starts from. The functions
  \<open>sendCallSignal\<close>, \<open>handleInitiateCall\<close>, \<open>handleAcceptCall\<close>,
  \<open>handleDeclineCall\<close> and \<open>handleEndActiveCall\<close> below describe a handler during
  whose \<open>await\<close> nothing else is handled; the section on suspended handlers splits
  each of them at the \<open>await\<close>, and the runs of the state machine are built from
  the parts, so that other events may come in between.
\<close>

datatype effect =
    PlayRingtone
  | StopRingtone
  | SendMessageToPeer string CallSignal
  | ConsoleError string
  | ConsoleWarn string

text \<open>
  An inbound text message, seen through \<open>JSON.parse\<close>: \<open>Malformed m\<close> is a text on
  which the \<open>try\<close> block throws an \<open>Error\<close> with message \<open>m\<close> (a \<open>SyntaxError\<close> of
  \<open>JSON.parse\<close>, or the \<open>TypeError\<close> of reading \<open>.type\<close> of \<open>null\<close>);
  \<open>Heartbeat userId timestamp siteName\<close> is an object whose type is
  \<open>"heartbeat"\<close>; \<open>Signal s\<close> is a well-formed \<open>CallSignal\<close>; \<open>OtherJson\<close> is any
  other JSON value, whose \<open>type\<close> matches none of the cases of the \<open>switch\<close>.
  This is the view of the traffic that the interface \<open>CallSignal\<close> gives. The
  section on raw messages models \<open>JSON.parse\<close> values as they are, including
  \<open>null\<close> and objects that carry a signal type and lack other fields.
\<close>

datatype payload =
    Malformed string
  | Heartbeat string int string
  | Signal CallSignal
  | OtherJson

section \<open>Utility functions\<close>

definition resetCallState :: "hook \<Rightarrow> hook \<times> effect list" where
  "resetCallState st =
     (st\<lparr>currentCallIdRef := None, currentCall := None, callState := IDLE,
         showVideoCall := False, currentTargetUserId := [], error := None\<rparr>,
      [StopRingtone])"

text \<open>Decimal rendering of a number in a template literal.\<close>

fun showNat :: "nat \<Rightarrow> string" where
  "showNat n =
     (if n < 10 then [char_of (48 + n)]
      else showNat (n div 10) @ [char_of (48 + n mod 10)])"

declare showNat.simps [simp del]

definition generateCallId :: "env \<Rightarrow> hook \<Rightarrow> string \<times> hook" where
  "generateCallId e st =
     (let callId = ''call_'' @ showNat (idTime e) @ ''_'' @ idSuffix e
      in (callId, st\<lparr>currentCallIdRef := Some callId\<rparr>))"

definition handleError :: "thrown \<Rightarrow> string \<Rightarrow> hook \<Rightarrow> hook \<times> effect list" where
  "handleError err defaultMessage st =
     (st\<lparr>error := Some (case err of JsError m \<Rightarrow> m | NonError \<Rightarrow> defaultMessage)\<rparr>,
      [ConsoleError defaultMessage])"

section \<open>Inbound signals\<close>

definition handleCallSignal :: "CallSignal \<Rightarrow> hook \<Rightarrow> hook \<times> effect list" where
  "handleCallSignal signal st =
     (case sig_type signal of
        INCOMING_CALL \<Rightarrow>
          (st\<lparr>currentCall := Some signal, callState := RINGING\<rparr>, [PlayRingtone])
      | CALL_ACCEPTED \<Rightarrow>
          (st\<lparr>currentCall := Some signal, callState := CONNECTED, showVideoCall := True\<rparr>,
           [StopRingtone])
      | CALL_DECLINED \<Rightarrow>
          (st\<lparr>currentCall := None, callState := IDLE, error := Some ''Call was declined''\<rparr>,
           [StopRingtone])
      | CALL_ENDED \<Rightarrow>
          (case resetCallState st of (st', fx) \<Rightarrow> (st', fx @ [StopRingtone])))"

text \<open>
  The listener of peer messages. A heartbeat or any other JSON value reaches
  \<open>handleCallSignal\<close>, whose \<open>switch\<close> has no case for it and no default.
\<close>

definition handleMessageFromPeer :: "payload \<Rightarrow> hook \<Rightarrow> hook \<times> effect list" where
  "handleMessageFromPeer message st =
     (case message of
        Malformed m \<Rightarrow> handleError (JsError m) ''Failed to parse peer message'' st
      | Heartbeat u t n \<Rightarrow> (st, [])
      | Signal signal \<Rightarrow> handleCallSignal signal st
      | OtherJson \<Rightarrow> (st, []))"

text \<open>The listener of channel messages that \<open>handleJoinChannel\<close> installs.\<close>

definition handleChannelMessage :: "payload \<Rightarrow> hook \<Rightarrow> hook \<times> effect list" where
  "handleChannelMessage message st =
     (case message of
        Malformed m \<Rightarrow> handleError (JsError m) ''Failed to parse channel message'' st
      | Heartbeat u t n \<Rightarrow> (st, [])
      | Signal signal \<Rightarrow> handleCallSignal signal st
      | OtherJson \<Rightarrow> (st, []))"

definition handleConnectionStateChange :: "string \<Rightarrow> hook \<Rightarrow> hook" where
  "handleConnectionStateChange newState st = st\<lparr>isConnected := (newState = ''CONNECTED'')\<rparr>"

section \<open>Outbound signals and local intents\<close>

text \<open>
  \<open>sendCallSignal\<close> returns \<open>Inl\<close> of the thrown value when it throws. The call id is
  read (or allocated) before the \<open>try\<close> block, so a failure inside the block keeps a
  freshly allocated id in the ref.
\<close>

definition sendCallSignal ::
  "env \<Rightarrow> string \<Rightarrow> string \<Rightarrow> SignalType \<Rightarrow> hook \<Rightarrow> (thrown + unit) \<times> hook \<times> effect list" where
  "sendCallSignal e to chan ty st =
     (if \<not> isConnected st then (Inl (JsError ''RTM not connected''), st, [])
      else
        (case (case currentCallIdRef st of
                 None \<Rightarrow> generateCallId e st
               | Some c \<Rightarrow> if c \<noteq> [] then (c, st) else generateCallId e st) of
           (callId, st1) \<Rightarrow>
             (let signal = \<lparr>sig_type = ty, sig_from = userId st, sig_to = to,
                            sig_channel = chan, sig_timestamp = sigTime e,
                            sig_callId = callId\<rparr>
              in case outcome e of
                   NoClient \<Rightarrow>
                     (case handleError (JsError ''RTM client not available'')
                             ''Failed to send call signal'' st1 of
                        (st2, fx) \<Rightarrow> (Inl (JsError ''RTM client not available''), st2, fx))
                 | SendRejected t \<Rightarrow>
                     (case handleError t ''Failed to send call signal'' st1 of
                        (st2, fx) \<Rightarrow> (Inl t, st2, SendMessageToPeer to signal # fx))
                 | Delivered \<Rightarrow> (Inr (), st1, [SendMessageToPeer to signal]))))"

definition handleInitiateCall :: "env \<Rightarrow> string \<Rightarrow> hook \<Rightarrow> hook \<times> effect list" where
  "handleInitiateCall e targetUserId st =
     (if targetUserId = [] \<or> channel st = []
      then (st\<lparr>error := Some ''Please enter target user ID and channel''\<rparr>, [])
      else
        (case generateCallId e (st\<lparr>error := None, currentTargetUserId := targetUserId\<rparr>) of
           (callId, st1) \<Rightarrow>
             (case sendCallSignal e targetUserId (channel st) INCOMING_CALL st1 of
                (Inr u, st2, fx) \<Rightarrow> (st2\<lparr>callState := CALLING\<rparr>, fx)
              | (Inl err, st2, fx) \<Rightarrow>
                  (case handleError err ''Failed to initiate call'' st2 of
                     (st3, fx') \<Rightarrow> (st3, fx @ fx')))))"

definition handleAcceptCall :: "env \<Rightarrow> hook \<Rightarrow> hook \<times> effect list" where
  "handleAcceptCall e st =
     (case currentCall st of
        None \<Rightarrow> (st, [])
      | Some c \<Rightarrow>
          (case sendCallSignal e (sig_from c) (sig_channel c) CALL_ACCEPTED
                  (st\<lparr>error := None\<rparr>) of
             (Inr u, st2, fx) \<Rightarrow>
               (st2\<lparr>callState := CONNECTED, showVideoCall := True\<rparr>, StopRingtone # fx)
           | (Inl err, st2, fx) \<Rightarrow>
               (case handleError err ''Failed to accept call'' st2 of
                  (st3, fx') \<Rightarrow> (st3, StopRingtone # fx @ fx'))))"

definition handleDeclineCall :: "env \<Rightarrow> hook \<Rightarrow> hook \<times> effect list" where
  "handleDeclineCall e st =
     (case currentCall st of
        None \<Rightarrow> (st, [])
      | Some c \<Rightarrow>
          (case sendCallSignal e (sig_from c) (sig_channel c) CALL_DECLINED
                  (st\<lparr>error := None\<rparr>) of
             (Inr u, st2, fx) \<Rightarrow>
               (st2\<lparr>currentCall := None, callState := IDLE\<rparr>, StopRingtone # fx)
           | (Inl err, st2, fx) \<Rightarrow>
               (case handleError err ''Failed to decline call'' st2 of
                  (st3, fx') \<Rightarrow> (st3, StopRingtone # fx @ fx'))))"

text \<open>
  \<open>currentCall?.from ?? currentTargetUserId\<close>: the dialled target is used only when
  no signal is stored; an empty \<open>from\<close> of a stored signal is not replaced.
\<close>

definition endTarget :: "hook \<Rightarrow> string" where
  "endTarget st = (case currentCall st of Some c \<Rightarrow> sig_from c | None \<Rightarrow> currentTargetUserId st)"

definition handleEndActiveCall :: "env \<Rightarrow> hook \<Rightarrow> hook \<times> effect list" where
  "handleEndActiveCall e st =
     (if callState st = IDLE then (st, [])
      else
        (let target = endTarget st in
         if target \<noteq> [] then
           (case sendCallSignal e target (channel st) CALL_ENDED st of
              (Inr u, st2, fx) \<Rightarrow>
                (case resetCallState st2 of (st3, fx') \<Rightarrow> (st3, StopRingtone # fx @ fx'))
            | (Inl err, st2, fx) \<Rightarrow>
                (case handleError err ''Failed to end call'' st2 of
                   (st3, fx') \<Rightarrow> (st3, StopRingtone # fx @ fx')))
         else
           (case resetCallState st of
              (st3, fx') \<Rightarrow>
                (st3, StopRingtone # ConsoleWarn ''No target user to notify about call end'' # fx'))))"

definition handleSettingsSave :: "string \<Rightarrow> string \<Rightarrow> hook \<Rightarrow> hook" where
  "handleSettingsSave siteName chan st = st\<lparr>userId := siteName, channel := chan\<rparr>"

section \<open>Suspended handlers\<close>

text \<open>
  \<open>sendCallSignal\<close> runs without interruption up to \<open>await client.sendMessageToPeer\<close>.
  When it throws before that point (not connected, no client), the promise is already
  rejected and the \<open>catch\<close> of the calling handler follows with no other event in
  between. When it reaches the transport, the handler is suspended until the send is
  settled, and listeners and other handlers run meanwhile. In the synchronous part only
  \<open>outcome e = NoClient\<close> is read from the outcome; how the send ends is given when
  it is settled.
\<close>

datatype settlement = Resolved | Rejected thrown

text \<open>The result \<open>Some t\<close> is a throw of \<open>t\<close>; \<open>None\<close> is a handler left waiting for the send.\<close>

definition sendCallSignal_sync ::
  "env \<Rightarrow> string \<Rightarrow> string \<Rightarrow> SignalType \<Rightarrow> hook \<Rightarrow> thrown option \<times> hook \<times> effect list" where
  "sendCallSignal_sync e to chan ty st =
     (if \<not> isConnected st then (Some (JsError ''RTM not connected''), st, [])
      else
        (case (case currentCallIdRef st of
                 None \<Rightarrow> generateCallId e st
               | Some c \<Rightarrow> if c \<noteq> [] then (c, st) else generateCallId e st) of
           (callId, st1) \<Rightarrow>
             (let signal = \<lparr>sig_type = ty, sig_from = userId st, sig_to = to,
                            sig_channel = chan, sig_timestamp = sigTime e,
                            sig_callId = callId\<rparr>
              in if outcome e = NoClient
                 then (case handleError (JsError ''RTM client not available'')
                              ''Failed to send call signal'' st1 of
                         (st2, fx) \<Rightarrow> (Some (JsError ''RTM client not available''), st2, fx))
                 else (None, st1, [SendMessageToPeer to signal]))))"

text \<open>The rest of \<open>sendCallSignal\<close>, run on the state found when the send is settled.\<close>

definition sendCallSignal_settled ::
  "settlement \<Rightarrow> hook \<Rightarrow> (thrown + unit) \<times> hook \<times> effect list" where
  "sendCallSignal_settled r st =
     (case r of
        Resolved \<Rightarrow> (Inr (), st, [])
      | Rejected t \<Rightarrow>
          (case handleError t ''Failed to send call signal'' st of
             (st2, fx) \<Rightarrow> (Inl t, st2, fx)))"

text \<open>
  Each handler up to its \<open>await\<close>: the new state, the effects, and whether the handler
  is left waiting.
\<close>

definition handleInitiateCall_start :: "env \<Rightarrow> string \<Rightarrow> hook \<Rightarrow> hook \<times> effect list \<times> bool" where
  "handleInitiateCall_start e targetUserId st =
     (if targetUserId = [] \<or> channel st = []
      then (st\<lparr>error := Some ''Please enter target user ID and channel''\<rparr>, [], False)
      else
        (case generateCallId e (st\<lparr>error := None, currentTargetUserId := targetUserId\<rparr>) of
           (callId, st1) \<Rightarrow>
             (case sendCallSignal_sync e targetUserId (channel st) INCOMING_CALL st1 of
                (None, st2, fx) \<Rightarrow> (st2, fx, True)
              | (Some err, st2, fx) \<Rightarrow>
                  (case handleError err ''Failed to initiate call'' st2 of
                     (st3, fx') \<Rightarrow> (st3, fx @ fx', False)))))"

definition handleAcceptCall_start :: "env \<Rightarrow> hook \<Rightarrow> hook \<times> effect list \<times> bool" where
  "handleAcceptCall_start e st =
     (case currentCall st of
        None \<Rightarrow> (st, [], False)
      | Some c \<Rightarrow>
          (case sendCallSignal_sync e (sig_from c) (sig_channel c) CALL_ACCEPTED
                  (st\<lparr>error := None\<rparr>) of
             (None, st2, fx) \<Rightarrow> (st2, StopRingtone # fx, True)
           | (Some err, st2, fx) \<Rightarrow>
               (case handleError err ''Failed to accept call'' st2 of
                  (st3, fx') \<Rightarrow> (st3, StopRingtone # fx @ fx', False))))"

definition handleDeclineCall_start :: "env \<Rightarrow> hook \<Rightarrow> hook \<times> effect list \<times> bool" where
  "handleDeclineCall_start e st =
     (case currentCall st of
        None \<Rightarrow> (st, [], False)
      | Some c \<Rightarrow>
          (case sendCallSignal_sync e (sig_from c) (sig_channel c) CALL_DECLINED
                  (st\<lparr>error := None\<rparr>) of
             (None, st2, fx) \<Rightarrow> (st2, StopRingtone # fx, True)
           | (Some err, st2, fx) \<Rightarrow>
               (case handleError err ''Failed to decline call'' st2 of
                  (st3, fx') \<Rightarrow> (st3, StopRingtone # fx @ fx', False))))"

definition handleEndActiveCall_start :: "env \<Rightarrow> hook \<Rightarrow> hook \<times> effect list \<times> bool" where
  "handleEndActiveCall_start e st =
     (if callState st = IDLE then (st, [], False)
      else
        (let target = endTarget st in
         if target \<noteq> [] then
           (case sendCallSignal_sync e target (channel st) CALL_ENDED st of
              (None, st2, fx) \<Rightarrow> (st2, StopRingtone # fx, True)
            | (Some err, st2, fx) \<Rightarrow>
                (case handleError err ''Failed to end call'' st2 of
                   (st3, fx') \<Rightarrow> (st3, StopRingtone # fx @ fx', False)))
         else
           (case resetCallState st of
              (st3, fx') \<Rightarrow>
                (st3, StopRingtone # ConsoleWarn ''No target user to notify about call end'' # fx',
                 False))))"

text \<open>
  Each handler after its \<open>await\<close>. What follows the \<open>await\<close> only calls state
  setters and \<open>resetCallState\<close>; it reads nothing from the closure.
\<close>

definition handleInitiateCall_resume :: "settlement \<Rightarrow> hook \<Rightarrow> hook \<times> effect list" where
  "handleInitiateCall_resume r st =
     (case sendCallSignal_settled r st of
        (Inr u, st2, fx) \<Rightarrow> (st2\<lparr>callState := CALLING\<rparr>, fx)
      | (Inl err, st2, fx) \<Rightarrow>
          (case handleError err ''Failed to initiate call'' st2 of
             (st3, fx') \<Rightarrow> (st3, fx @ fx')))"

definition handleAcceptCall_resume :: "settlement \<Rightarrow> hook \<Rightarrow> hook \<times> effect list" where
  "handleAcceptCall_resume r st =
     (case sendCallSignal_settled r st of
        (Inr u, st2, fx) \<Rightarrow> (st2\<lparr>callState := CONNECTED, showVideoCall := True\<rparr>, fx)
      | (Inl err, st2, fx) \<Rightarrow>
          (case handleError err ''Failed to accept call'' st2 of
             (st3, fx') \<Rightarrow> (st3, fx @ fx')))"

definition handleDeclineCall_resume :: "settlement \<Rightarrow> hook \<Rightarrow> hook \<times> effect list" where
  "handleDeclineCall_resume r st =
     (case sendCallSignal_settled r st of
        (Inr u, st2, fx) \<Rightarrow> (st2\<lparr>currentCall := None, callState := IDLE\<rparr>, fx)
      | (Inl err, st2, fx) \<Rightarrow>
          (case handleError err ''Failed to decline call'' st2 of
             (st3, fx') \<Rightarrow> (st3, fx @ fx')))"

definition handleEndActiveCall_resume :: "settlement \<Rightarrow> hook \<Rightarrow> hook \<times> effect list" where
  "handleEndActiveCall_resume r st =
     (case sendCallSignal_settled r st of
        (Inr u, st2, fx) \<Rightarrow>
          (case resetCallState st2 of (st3, fx') \<Rightarrow> (st3, fx @ fx'))
      | (Inl err, st2, fx) \<Rightarrow>
          (case handleError err ''Failed to end call'' st2 of
             (st3, fx') \<Rightarrow> (st3, fx @ fx')))"

text \<open>The settlement that an outcome stands for once the transport has been reached.\<close>

definition settlementOf :: "send_outcome \<Rightarrow> settlement" where
  "settlementOf out = (case out of SendRejected t \<Rightarrow> Rejected t | Delivered \<Rightarrow> Resolved | NoClient \<Rightarrow> Resolved)"

section \<open>Runs of the state machine\<close>

text \<open>
  The handlers that are suspended at their \<open>await\<close>, in the order in which they were
  started.
\<close>

datatype awaiting = AwaitInitiate | AwaitAccept | AwaitDecline | AwaitEnd

definition resume :: "awaiting \<Rightarrow> settlement \<Rightarrow> hook \<Rightarrow> hook \<times> effect list" where
  "resume a r st =
     (case a of
        AwaitInitiate \<Rightarrow> handleInitiateCall_resume r st
      | AwaitAccept \<Rightarrow> handleAcceptCall_resume r st
      | AwaitDecline \<Rightarrow> handleDeclineCall_resume r st
      | AwaitEnd \<Rightarrow> handleEndActiveCall_resume r st)"

text \<open>
  What can happen to the hook. \<open>InitiateCall\<close>, \<open>AcceptCall\<close>, \<open>DeclineCall\<close> and
  \<open>EndActiveCall\<close> are a local intent whose handler runs to its end with nothing
  handled during its \<open>await\<close>. The events named \<open>Start\<close> are a local intent whose
  handler runs up to its \<open>await\<close>; \<open>SendSettled i r\<close> lets the transport settle
  the send of the \<open>i\<close>-th suspended handler, which then runs to its end on the state
  it finds. Any other event may come between the two.
\<close>

datatype event =
    InitiateCall env string
  | AcceptCall env
  | DeclineCall env
  | EndActiveCall env
  | InitiateCallStart env string
  | AcceptCallStart env
  | DeclineCallStart env
  | EndActiveCallStart env
  | SendSettled nat settlement
  | MessageFromPeer payload
  | ChannelMessage payload
  | ConnectionStateChange string
  | SettingsSave string string

definition suspend :: "awaiting \<Rightarrow> awaiting list \<Rightarrow> hook \<times> effect list \<times> bool \<Rightarrow> hook \<times> awaiting list" where
  "suspend a ps r = (case r of (st, fx, waiting) \<Rightarrow> (st, if waiting then ps @ [a] else ps))"

fun step :: "hook \<times> awaiting list \<Rightarrow> event \<Rightarrow> hook \<times> awaiting list" where
  "step (st, ps) (InitiateCall e target) = (fst (handleInitiateCall e target st), ps)"
| "step (st, ps) (AcceptCall e) = (fst (handleAcceptCall e st), ps)"
| "step (st, ps) (DeclineCall e) = (fst (handleDeclineCall e st), ps)"
| "step (st, ps) (EndActiveCall e) = (fst (handleEndActiveCall e st), ps)"
| "step (st, ps) (InitiateCallStart e target) =
     suspend AwaitInitiate ps (handleInitiateCall_start e target st)"
| "step (st, ps) (AcceptCallStart e) = suspend AwaitAccept ps (handleAcceptCall_start e st)"
| "step (st, ps) (DeclineCallStart e) = suspend AwaitDecline ps (handleDeclineCall_start e st)"
| "step (st, ps) (EndActiveCallStart e) = suspend AwaitEnd ps (handleEndActiveCall_start e st)"
| "step (st, ps) (SendSettled i r) =
     (if i < length ps then (fst (resume (ps ! i) r st), take i ps @ drop (Suc i) ps)
      else (st, ps))"
| "step (st, ps) (MessageFromPeer m) = (fst (handleMessageFromPeer m st), ps)"
| "step (st, ps) (ChannelMessage m) = (fst (handleChannelMessage m st), ps)"
| "step (st, ps) (ConnectionStateChange s) = (handleConnectionStateChange s st, ps)"
| "step (st, ps) (SettingsSave n c) = (handleSettingsSave n c st, ps)"

text \<open>The state of the hook after the events, starting with no handler suspended.\<close>

definition run :: "hook \<Rightarrow> event list \<Rightarrow> hook" where
  "run st evs = fst (foldl step (st, []) evs)"

text \<open>The values given to \<open>useState\<close> and \<open>useRef\<close> when the hook is mounted.\<close>

definition initialHook :: hook where
  "initialHook =
     \<lparr>callState = IDLE, currentCall = None, error = None, userId = [],
      currentTargetUserId = [], channel = ''dragnet-channel'', showVideoCall = False,
      isConnected = False, currentCallIdRef = None\<rparr>"

text \<open>The calls of \<open>client.sendMessageToPeer\<close> among the effects: addressee and signal type.\<close>

fun sentTo :: "effect list \<Rightarrow> (string \<times> SignalType) list" where
  "sentTo [] = []"
| "sentTo (SendMessageToPeer to s # fx) = (to, sig_type s) # sentTo fx"
| "sentTo (x # fx) = sentTo fx"

section \<open>Two parties\<close>



section \<open>Presence tracking (command page)\<close>

text \<open>
  The interface \<open>OnlineUser\<close>; its \<open>userId\<close> is named \<open>userId_u\<close> here, apart from the
  field of the hook. Times are milliseconds as \<open>Date.now()\<close> gives them.
\<close>

record OnlineUser =
  userId_u :: string
  lastSeen :: int
  isOnline :: bool

definition updateUserPresence :: "int \<Rightarrow> string \<Rightarrow> bool \<Rightarrow> OnlineUser list \<Rightarrow> OnlineUser list" where
  "updateUserPresence now uid online prev =
     (case find (\<lambda>user. userId_u user = uid) prev of
        Some existing \<Rightarrow>
          map (\<lambda>user. if userId_u user = uid
                       then user\<lparr>lastSeen := now, isOnline := online\<rparr> else user) prev
      | None \<Rightarrow> prev @ [\<lparr>userId_u = uid, lastSeen = now, isOnline = online\<rparr>])"

definition OFFLINE_THRESHOLD :: int where
  "OFFLINE_THRESHOLD = 30000"

definition cleanupOfflineUsers :: "int \<Rightarrow> OnlineUser list \<Rightarrow> OnlineUser list" where
  "cleanupOfflineUsers now prev =
     map (\<lambda>user. user\<lparr>isOnline := (isOnline user \<and> now - lastSeen user < OFFLINE_THRESHOLD)\<rparr>)
       prev"

record command =
  onlineUsers :: "OnlineUser list"
  commandError :: "string option"

text \<open>
  The channel listener of the command page: a heartbeat refreshes the sender's record
  with the receiver's clock; a text that does not parse sets the error message.
\<close>

definition handleChannelMessage_command :: "int \<Rightarrow> payload \<Rightarrow> command \<Rightarrow> command" where
  "handleChannelMessage_command now message st =
     (case message of
        Malformed m \<Rightarrow> st\<lparr>commandError := Some m\<rparr>
      | Heartbeat u t n \<Rightarrow> st\<lparr>onlineUsers := updateUserPresence now u True (onlineUsers st)\<rparr>
      | Signal signal \<Rightarrow> st
      | OtherJson \<Rightarrow> st)"

text \<open>
  What happens to the command page over time: a channel message arriving at a given
  reading of the clock, or the sweep timer firing at one.
\<close>

datatype presence_event = Arrives int payload | Sweep int

fun presence_step :: "command \<Rightarrow> presence_event \<Rightarrow> command" where
  "presence_step st (Arrives now m) = handleChannelMessage_command now m st"
| "presence_step st (Sweep now) = st\<lparr>onlineUsers := cleanupOfflineUsers now (onlineUsers st)\<rparr>"

definition presence_run :: "command \<Rightarrow> presence_event list \<Rightarrow> command" where
  "presence_run st evs = foldl presence_step st evs"

text \<open>The clock readings of the sweeps in a run, and whether a run holds a heartbeat of a user.\<close>

fun sweepsOf :: "presence_event list \<Rightarrow> int list" where
  "sweepsOf [] = []"
| "sweepsOf (Sweep now # evs) = now # sweepsOf evs"
| "sweepsOf (x # evs) = sweepsOf evs"

fun heardFrom :: "string \<Rightarrow> presence_event list \<Rightarrow> bool" where
  "heardFrom x [] = False"
| "heardFrom x (Arrives now (Heartbeat u t n) # evs) = (u = x \<or> heardFrom x evs)"
| "heardFrom x (y # evs) = heardFrom x evs"

section \<open>Credential refresh (useTokenRefresh)\<close>

text \<open>
  \<open>tokenExpiresAt\<close> is \<open>number | null\<close>, in seconds; \<open>!tokenExpiresAt\<close> holds for
  \<open>null\<close> and for \<open>0\<close>. The clock is \<open>Date.now()\<close>, in milliseconds.
\<close>

definition isTokenExpired :: "int option \<Rightarrow> int \<Rightarrow> bool" where
  "isTokenExpired tokenExpiresAt nowMs =
     (case tokenExpiresAt of
        None \<Rightarrow> True
      | Some x \<Rightarrow> if x = 0 then True else x - nowMs div 1000 < 300)"

text \<open>The number of calls of \<open>generateToken\<close> that one run of \<open>checkTokenExpiry\<close> makes.\<close>

definition checkTokenExpiry :: "int option \<Rightarrow> int \<Rightarrow> nat" where
  "checkTokenExpiry tokenExpiresAt nowMs = (if isTokenExpired tokenExpiresAt nowMs then 1 else 0)"

text \<open>
  The effect installs the interval only when joined and an expiry is stored; otherwise
  it returns before \<open>setInterval\<close> and nothing runs when the minute has passed.
\<close>

definition intervalInstalled :: "bool \<Rightarrow> int option \<Rightarrow> bool" where
  "intervalInstalled isJoined tokenExpiresAt =
     (if \<not> isJoined \<or> tokenExpiresAt = None \<or> tokenExpiresAt = Some 0 then False else True)"

definition periodicCheck :: "bool \<Rightarrow> int option \<Rightarrow> int \<Rightarrow> nat" where
  "periodicCheck isJoined tokenExpiresAt nowMs =
     (if intervalInstalled isJoined tokenExpiresAt
      then checkTokenExpiry tokenExpiresAt nowMs else 0)"

section \<open>Raw messages\<close>

text \<open>
  The value that \<open>JSON.parse\<close> returns. An object is the list of its members in the
  order of the text; of two members with one key the later one counts. Numbers are
  whole, as the timestamps of the wire formats are; the handlers compute with none.
\<close>

datatype json =
    JNull
  | JBool bool
  | JNumber int
  | JString string
  | JArray "json list"
  | JObject "(string \<times> json) list"

text \<open>
  An inbound text as \<open>JSON.parse\<close> sees it: \<open>Inl m\<close> when it throws a
  \<open>SyntaxError\<close> with message \<open>m\<close>, \<open>Inr v\<close> when it returns \<open>v\<close>.
\<close>

type_synonym parsed = "string + json"

text \<open>The message of the \<open>TypeError\<close> that reading \<open>.type\<close> of \<open>null\<close> throws.\<close>

definition typeErrorOfNull :: string where
  "typeErrorOfNull =
     ''Cannot read properties of null (reading '' @ [CHR 0x27] @ ''type'' @ [CHR 0x27] @ '')''"

text \<open>
  Reading \<open>v.type\<close>: it throws on \<open>null\<close>, looks the member up in an object, and is
  \<open>undefined\<close> (\<open>None\<close>) on every other value.
\<close>

definition readType :: "json \<Rightarrow> thrown + json option" where
  "readType v =
     (case v of
        JNull \<Rightarrow> Inl (JsError typeErrorOfNull)
      | JObject members \<Rightarrow> Inr (map_of (rev members) ''type'')
      | JBool b \<Rightarrow> Inr None
      | JNumber n \<Rightarrow> Inr None
      | JString x \<Rightarrow> Inr None
      | JArray xs \<Rightarrow> Inr None)"

text \<open>
  The state of the hook with \<open>currentCall\<close> holding whatever value was stored: the
  type \<open>CallSignal | null\<close> is not checked when the program runs.
\<close>

record rawHook =
  callState_raw :: CallState
  currentCall_raw :: "json option"
  error_raw :: "string option"
  userId_raw :: string
  currentTargetUserId_raw :: string
  channel_raw :: string
  showVideoCall_raw :: bool
  isConnected_raw :: bool
  currentCallIdRef_raw :: "string option"

definition resetCallState_raw :: "rawHook \<Rightarrow> rawHook \<times> effect list" where
  "resetCallState_raw st =
     (st\<lparr>currentCallIdRef_raw := None, currentCall_raw := None, callState_raw := IDLE,
         showVideoCall_raw := False, currentTargetUserId_raw := [], error_raw := None\<rparr>,
      [StopRingtone])"

definition handleError_raw :: "thrown \<Rightarrow> string \<Rightarrow> rawHook \<Rightarrow> rawHook \<times> effect list" where
  "handleError_raw err defaultMessage st =
     (st\<lparr>error_raw := Some (case err of JsError m \<Rightarrow> m | NonError \<Rightarrow> defaultMessage)\<rparr>,
      [ConsoleError defaultMessage])"

text \<open>
  \<open>handleCallSignal\<close> on the value it is given: the \<open>switch\<close> compares
  \<open>signal.type\<close> with the four string literals and has no default; no other member
  of the value is read. \<open>Inl\<close> is a throw, which happens before any setter is called.
\<close>

definition handleCallSignal_raw :: "json \<Rightarrow> rawHook \<Rightarrow> thrown + rawHook \<times> effect list" where
  "handleCallSignal_raw signal st =
     (case readType signal of
        Inl t \<Rightarrow> Inl t
      | Inr ty \<Rightarrow>
          Inr (if ty = Some (JString ''INCOMING_CALL'') then
                 (st\<lparr>currentCall_raw := Some signal, callState_raw := RINGING\<rparr>, [PlayRingtone])
               else if ty = Some (JString ''CALL_ACCEPTED'') then
                 (st\<lparr>currentCall_raw := Some signal, callState_raw := CONNECTED,
                     showVideoCall_raw := True\<rparr>,
                  [StopRingtone])
               else if ty = Some (JString ''CALL_DECLINED'') then
                 (st\<lparr>currentCall_raw := None, callState_raw := IDLE,
                     error_raw := Some ''Call was declined''\<rparr>,
                  [StopRingtone])
               else if ty = Some (JString ''CALL_ENDED'') then
                 (case resetCallState_raw st of (st', fx) \<Rightarrow> (st', fx @ [StopRingtone]))
               else (st, [])))"

definition handleMessageFromPeer_raw :: "parsed \<Rightarrow> rawHook \<Rightarrow> rawHook \<times> effect list" where
  "handleMessageFromPeer_raw message st =
     (case message of
        Inl m \<Rightarrow> handleError_raw (JsError m) ''Failed to parse peer message'' st
      | Inr signal \<Rightarrow>
          (case handleCallSignal_raw signal st of
             Inl t \<Rightarrow> handleError_raw t ''Failed to parse peer message'' st
           | Inr r \<Rightarrow> r))"

definition handleChannelMessage_raw :: "parsed \<Rightarrow> rawHook \<Rightarrow> rawHook \<times> effect list" where
  "handleChannelMessage_raw message st =
     (case message of
        Inl m \<Rightarrow> handleError_raw (JsError m) ''Failed to parse channel message'' st
      | Inr data \<Rightarrow>
          (case readType data of
             Inl t \<Rightarrow> handleError_raw t ''Failed to parse channel message'' st
           | Inr ty \<Rightarrow>
               if ty = Some (JString ''heartbeat'') then (st, [])
               else
                 (case handleCallSignal_raw data st of
                    Inl t \<Rightarrow> handleError_raw t ''Failed to parse channel message'' st
                  | Inr r \<Rightarrow> r)))"

text \<open>The four strings of the \<open>switch\<close>.\<close>

definition signalTypeNames :: "string set" where
  "signalTypeNames = {''INCOMING_CALL'', ''CALL_ACCEPTED'', ''CALL_DECLINED'', ''CALL_ENDED''}"

text \<open>
  What \<open>JSON.stringify\<close> followed by \<open>JSON.parse\<close> makes of a signal and of a
  heartbeat, and the raw state that a state of the typed hook stands for.
\<close>

definition typeName :: "SignalType \<Rightarrow> string" where
  "typeName ty =
     (case ty of
        INCOMING_CALL \<Rightarrow> ''INCOMING_CALL''
      | CALL_ACCEPTED \<Rightarrow> ''CALL_ACCEPTED''
      | CALL_DECLINED \<Rightarrow> ''CALL_DECLINED''
      | CALL_ENDED \<Rightarrow> ''CALL_ENDED'')"

definition signalJson :: "CallSignal \<Rightarrow> json" where
  "signalJson s =
     JObject [(''type'', JString (typeName (sig_type s))), (''from'', JString (sig_from s)),
              (''to'', JString (sig_to s)), (''channel'', JString (sig_channel s)),
              (''timestamp'', JNumber (sig_timestamp s)), (''callId'', JString (sig_callId s))]"

definition heartbeatJson :: "string \<Rightarrow> int \<Rightarrow> string \<Rightarrow> json" where
  "heartbeatJson uid t siteName =
     JObject [(''type'', JString ''heartbeat''), (''userId'', JString uid),
              (''timestamp'', JNumber t), (''siteName'', JString siteName)]"

definition rawOf :: "hook \<Rightarrow> rawHook" where
  "rawOf st =
     \<lparr>callState_raw = callState st, currentCall_raw = map_option signalJson (currentCall st),
      error_raw = error st, userId_raw = userId st,
      currentTargetUserId_raw = currentTargetUserId st, channel_raw = channel st,
      showVideoCall_raw = showVideoCall st, isConnected_raw = isConnected st,
      currentCallIdRef_raw = currentCallIdRef st\<rparr>"

section \<open>A handler and its two parts\<close>

text \<open>
  A handler during whose \<open>await\<close> nothing else is handled is its first part followed
  at once by its second part.
\<close>

lemma sendCallSignal_phases:
  "sendCallSignal e to chan ty st =
     (case sendCallSignal_sync e to chan ty st of
        (Some t, st1, fx) \<Rightarrow> (Inl t, st1, fx)
      | (None, st1, fx) \<Rightarrow>
          (case sendCallSignal_settled (settlementOf (outcome e)) st1 of
             (r, st2, fx2) \<Rightarrow> (r, st2, fx @ fx2)))"
  by (cases "outcome e")
     (auto simp: sendCallSignal_def sendCallSignal_sync_def sendCallSignal_settled_def
        settlementOf_def generateCallId_def handleError_def Let_def split: option.splits)

lemma handleInitiateCall_phases:
  "handleInitiateCall e target st =
     (case handleInitiateCall_start e target st of
        (st1, fx, waiting) \<Rightarrow>
          if waiting
          then (case handleInitiateCall_resume (settlementOf (outcome e)) st1 of
                  (st2, fx2) \<Rightarrow> (st2, fx @ fx2))
          else (st1, fx))"
  by (cases "outcome e")
     (auto simp: handleInitiateCall_def handleInitiateCall_start_def
        handleInitiateCall_resume_def sendCallSignal_def sendCallSignal_sync_def
        sendCallSignal_settled_def settlementOf_def generateCallId_def handleError_def Let_def
        split: option.splits)

lemma handleAcceptCall_phases:
  "handleAcceptCall e st =
     (case handleAcceptCall_start e st of
        (st1, fx, waiting) \<Rightarrow>
          if waiting
          then (case handleAcceptCall_resume (settlementOf (outcome e)) st1 of
                  (st2, fx2) \<Rightarrow> (st2, fx @ fx2))
          else (st1, fx))"
  by (cases "outcome e")
     (auto simp: handleAcceptCall_def handleAcceptCall_start_def
        handleAcceptCall_resume_def sendCallSignal_def sendCallSignal_sync_def
        sendCallSignal_settled_def settlementOf_def generateCallId_def handleError_def Let_def
        split: option.splits)

lemma handleDeclineCall_phases:
  "handleDeclineCall e st =
     (case handleDeclineCall_start e st of
        (st1, fx, waiting) \<Rightarrow>
          if waiting
          then (case handleDeclineCall_resume (settlementOf (outcome e)) st1 of
                  (st2, fx2) \<Rightarrow> (st2, fx @ fx2))
          else (st1, fx))"
  by (cases "outcome e")
     (auto simp: handleDeclineCall_def handleDeclineCall_start_def
        handleDeclineCall_resume_def sendCallSignal_def sendCallSignal_sync_def
        sendCallSignal_settled_def settlementOf_def generateCallId_def handleError_def Let_def
        split: option.splits)

lemma handleEndActiveCall_phases:
  "handleEndActiveCall e st =
     (case handleEndActiveCall_start e st of
        (st1, fx, waiting) \<Rightarrow>
          if waiting
          then (case handleEndActiveCall_resume (settlementOf (outcome e)) st1 of
                  (st2, fx2) \<Rightarrow> (st2, fx @ fx2))
          else (st1, fx))"
  by (cases "outcome e")
     (auto simp: handleEndActiveCall_def handleEndActiveCall_start_def
        handleEndActiveCall_resume_def sendCallSignal_def sendCallSignal_sync_def
        sendCallSignal_settled_def settlementOf_def generateCallId_def handleError_def
        resetCallState_def Let_def
        split: option.splits)

section \<open>Call state and call id over a run\<close>























section \<open>Remote end of call\<close>

text \<open>
  C4. Applying the remote \<open>CALL_ENDED\<close> signal in any state gives \<open>IDLE\<close>; applying it
  a second time in a row gives \<open>IDLE\<close> again, changes nothing in the state, and leaves
  no error.
\<close>

theorem call_ended_idempotent:
  assumes "sig_type s1 = CALL_ENDED" and "sig_type s2 = CALL_ENDED"
  shows "callState (fst (handleCallSignal s1 st)) = IDLE
       \<and> fst (handleCallSignal s2 (fst (handleCallSignal s1 st))) = fst (handleCallSignal s1 st)
       \<and> callState (fst (handleCallSignal s2 (fst (handleCallSignal s1 st)))) = IDLE
       \<and> error (fst (handleCallSignal s2 (fst (handleCallSignal s1 st)))) = None
       \<and> snd (handleCallSignal s2 (fst (handleCallSignal s1 st))) = [StopRingtone, StopRingtone]"
  using assms by (simp add: handleCallSignal_def resetCallState_def)

theorem call_ended_idempotent_witness:
  "callState (fst (handleCallSignal
      \<lparr>sig_type = CALL_ENDED, sig_from = ''B'', sig_to = ''A'', sig_channel = ''c1'',
       sig_timestamp = 5, sig_callId = ''k''\<rparr>
      (initialHook\<lparr>callState := CONNECTED, error := Some ''old''\<rparr>))) = IDLE
   \<and> error (fst (handleCallSignal
      \<lparr>sig_type = CALL_ENDED, sig_from = ''B'', sig_to = ''A'', sig_channel = ''c1'',
       sig_timestamp = 9, sig_callId = ''k''\<rparr>
      (fst (handleCallSignal
        \<lparr>sig_type = CALL_ENDED, sig_from = ''B'', sig_to = ''A'', sig_channel = ''c1'',
         sig_timestamp = 5, sig_callId = ''k''\<rparr>
        (initialHook\<lparr>callState := CONNECTED, error := Some ''old''\<rparr>))))) = None"
proof -
  let ?s1 = "\<lparr>sig_type = CALL_ENDED, sig_from = ''B'', sig_to = ''A'', sig_channel = ''c1'',
             sig_timestamp = 5, sig_callId = ''k''\<rparr>"
  let ?s2 = "\<lparr>sig_type = CALL_ENDED, sig_from = ''B'', sig_to = ''A'', sig_channel = ''c1'',
             sig_timestamp = 9, sig_callId = ''k''\<rparr>"
  have a: "sig_type ?s1 = CALL_ENDED" and b: "sig_type ?s2 = CALL_ENDED"
    by simp_all
  from call_ended_idempotent [OF a b] show ?thesis
    by blast
qed

section \<open>Dialling and accepting between two parties\<close>




section \<open>Inbound signals are applied by type\<close>

text \<open>
  C3, as the code has it. A parsed \<open>CallSignal\<close> handed to the peer listener is
  applied whatever \<open>from\<close>, \<open>to\<close> and \<open>callId\<close> it carries: the new call state
  depends on the type of the signal alone, and \<open>currentCall\<close> becomes the signal
  itself (\<open>INCOMING_CALL\<close>, \<open>CALL_ACCEPTED\<close>) or \<open>null\<close> (\<open>CALL_DECLINED\<close>,
  \<open>CALL_ENDED\<close>).
\<close>

theorem signal_applied_by_type:
  "callState (fst (handleMessageFromPeer
       (Signal (signal\<lparr>sig_from := f, sig_to := t, sig_callId := c\<rparr>)) st))
     = (case sig_type signal of
          INCOMING_CALL \<Rightarrow> RINGING | CALL_ACCEPTED \<Rightarrow> CONNECTED
        | CALL_DECLINED \<Rightarrow> IDLE | CALL_ENDED \<Rightarrow> IDLE)
   \<and> currentCall (fst (handleMessageFromPeer
       (Signal (signal\<lparr>sig_from := f, sig_to := t, sig_callId := c\<rparr>)) st))
     = (case sig_type signal of
          INCOMING_CALL \<Rightarrow> Some (signal\<lparr>sig_from := f, sig_to := t, sig_callId := c\<rparr>)
        | CALL_ACCEPTED \<Rightarrow> Some (signal\<lparr>sig_from := f, sig_to := t, sig_callId := c\<rparr>)
        | CALL_DECLINED \<Rightarrow> None | CALL_ENDED \<Rightarrow> None)"
  by (simp add: handleMessageFromPeer_def handleCallSignal_def resetCallState_def
       split: SignalType.splits)

text \<open>
  A dialling party whose call id is \<open>call_1000_abcdefghi\<close> and whose counterpart is B
  receives a \<open>CALL_ACCEPTED\<close> from X to Y with another call id, and becomes
  \<open>CONNECTED\<close>.
\<close>

theorem signal_identity_check_counterexample:
  "\<not> (callState (fst (handleMessageFromPeer
          (Signal \<lparr>sig_type = CALL_ACCEPTED, sig_from = ''X'', sig_to = ''Y'',
             sig_channel = ''c9'', sig_timestamp = 2000, sig_callId = ''other''\<rparr>)
          (run initialHook
            [SettingsSave ''A'' ''c1'', ConnectionStateChange ''CONNECTED'',
             InitiateCall \<lparr>idTime = 1000, idSuffix = ''abcdefghi'', sigTime = 1000,
               outcome = Delivered\<rparr> ''B''])))
       = callState (run initialHook
            [SettingsSave ''A'' ''c1'', ConnectionStateChange ''CONNECTED'',
             InitiateCall \<lparr>idTime = 1000, idSuffix = ''abcdefghi'', sigTime = 1000,
               outcome = Delivered\<rparr> ''B'']))"
  by code_simp

section \<open>Presence\<close>

lemma find_append_none:
  "find P xs = None \<Longrightarrow> find P (xs @ ys) = find P ys"
  by (induction xs) (auto split: if_splits)

lemma find_map_update:
  assumes "find P xs = Some r" and "\<And>u. P u \<Longrightarrow> P (f u)"
  shows "find P (map (\<lambda>u. if P u then f u else u) xs) = Some (f r)"
  using assms(1)
proof (induction xs)
  case Nil
  then show ?case by simp
next
  case (Cons x xs)
  then show ?case using assms(2) by (cases "P x") auto
qed

lemma find_Some_holds: "find P xs = Some r \<Longrightarrow> P r"
  by (induction xs) (auto split: if_splits)

lemma find_after_update:
  "find (\<lambda>u. userId_u u = x) (updateUserPresence t x on prev)
     = Some \<lparr>userId_u = x, lastSeen = t, isOnline = on\<rparr>"
proof (cases "find (\<lambda>u. userId_u u = x) prev")
  case None
  then show ?thesis
    by (simp add: updateUserPresence_def find_append_none)
next
  case (Some r)
  then have "userId_u r = x" by (rule find_Some_holds)
  moreover have "find (\<lambda>u. userId_u u = x)
      (map (\<lambda>u. if userId_u u = x then u\<lparr>lastSeen := t, isOnline := on\<rparr> else u) prev)
     = Some (r\<lparr>lastSeen := t, isOnline := on\<rparr>)"
    using Some by (rule find_map_update) simp
  ultimately show ?thesis using Some
    by (simp add: updateUserPresence_def)
qed

lemma find_other_update:
  assumes "y \<noteq> x"
  shows "find (\<lambda>u. userId_u u = x) (updateUserPresence t y on prev)
     = find (\<lambda>u. userId_u u = x) prev"
proof -
  have m: "find (\<lambda>u. userId_u u = x)
      (map (\<lambda>u. if userId_u u = y then u\<lparr>lastSeen := t, isOnline := on\<rparr> else u) prev)
     = find (\<lambda>u. userId_u u = x) prev"
    using assms by (induction prev) auto
  have a: "find (\<lambda>u. userId_u u = x) (prev @ [\<lparr>userId_u = y, lastSeen = t, isOnline = on\<rparr>])
     = find (\<lambda>u. userId_u u = x) prev"
    using assms by (induction prev) auto
  show ?thesis
    by (simp add: updateUserPresence_def m a split: option.splits)
qed

lemma find_cleanup:
  "find (\<lambda>u. userId_u u = x) (cleanupOfflineUsers now prev)
     = map_option (\<lambda>u. u\<lparr>isOnline := (isOnline u \<and> now - lastSeen u < OFFLINE_THRESHOLD)\<rparr>)
         (find (\<lambda>u. userId_u u = x) prev)"
  by (induction prev) (auto simp: cleanupOfflineUsers_def)

lemma presence_run_record:
  assumes "find (\<lambda>u. userId_u u = x) (onlineUsers st) = Some r" and "\<not> heardFrom x evs"
  shows "find (\<lambda>u. userId_u u = x) (onlineUsers (presence_run st evs))
     = Some (r\<lparr>isOnline := (isOnline r \<and> list_all (\<lambda>s. s - lastSeen r < 30000) (sweepsOf evs))\<rparr>)"
  using assms unfolding presence_run_def
proof (induction evs arbitrary: st r)
  case Nil
  then show ?case by simp
next
  case (Cons ev evs)
  show ?case
  proof (cases ev)
    case (Sweep now)
    let ?r = "r\<lparr>isOnline := (isOnline r \<and> now - lastSeen r < OFFLINE_THRESHOLD)\<rparr>"
    have "find (\<lambda>u. userId_u u = x) (onlineUsers (presence_step st ev)) = Some ?r"
      using Cons.prems(1) Sweep by (simp add: find_cleanup)
    moreover have "\<not> heardFrom x evs" using Cons.prems(2) Sweep by simp
    ultimately have "find (\<lambda>u. userId_u u = x) (onlineUsers (foldl presence_step (presence_step st ev) evs))
       = Some (?r\<lparr>isOnline := (isOnline ?r \<and> list_all (\<lambda>s. s - lastSeen ?r < 30000) (sweepsOf evs))\<rparr>)"
      by (rule Cons.IH)
    then show ?thesis using Sweep by (simp add: OFFLINE_THRESHOLD_def conj_assoc)
  next
    case (Arrives now m)
    have keep: "find (\<lambda>u. userId_u u = x) (onlineUsers (presence_step st ev)) = Some r"
      using Cons.prems Arrives
      by (cases m) (auto simp: handleChannelMessage_command_def find_other_update)
    have nh: "\<not> heardFrom x evs" using Cons.prems(2) Arrives by (cases m) auto
    have sw: "sweepsOf (ev # evs) = sweepsOf evs" using Arrives by simp
    from Cons.IH [OF keep nh] show ?thesis by (simp add: sw)
  qed
qed

text \<open>
  C5. A heartbeat of user \<open>x\<close> arriving at clock reading \<open>t\<close> leaves exactly the
  record (\<open>x\<close>, \<open>lastSeen = t\<close>, \<open>isOnline = true\<close>) for \<open>x\<close>, creating it when
  \<open>x\<close> was not listed and putting it back online when it was offline. Over any
  later events without a heartbeat of \<open>x\<close>, the record keeps \<open>lastSeen = t\<close> and
  is online exactly when every sweep so far ran less than 30000 ms after \<open>t\<close>: the
  first sweep at 30 seconds of silence or more turns it offline. A sweep at reading
  \<open>now\<close> recomputes \<open>isOnline && now - lastSeen < 30000\<close> for every record and
  changes nothing else.
\<close>

theorem presence_after_heartbeat:
  assumes "\<not> heardFrom x evs"
  shows "find (\<lambda>u. userId_u u = x)
           (onlineUsers (presence_run (presence_step st (Arrives t (Heartbeat x ts nm))) evs))
         = Some \<lparr>userId_u = x, lastSeen = t,
                 isOnline = list_all (\<lambda>s. s - t < 30000) (sweepsOf evs)\<rparr>
       \<and> length (updateUserPresence t x True us)
           = (if find (\<lambda>u. userId_u u = x) us = None then Suc (length us) else length us)
       \<and> map isOnline (cleanupOfflineUsers now us)
           = map (\<lambda>u. isOnline u \<and> now - lastSeen u < 30000) us
       \<and> map lastSeen (cleanupOfflineUsers now us) = map lastSeen us
       \<and> map userId_u (cleanupOfflineUsers now us) = map userId_u us"
proof -
  have "find (\<lambda>u. userId_u u = x) (onlineUsers (presence_step st (Arrives t (Heartbeat x ts nm))))
      = Some \<lparr>userId_u = x, lastSeen = t, isOnline = True\<rparr>"
    by (simp add: handleChannelMessage_command_def find_after_update)
  from presence_run_record [OF this assms] have a: "find (\<lambda>u. userId_u u = x)
           (onlineUsers (presence_run (presence_step st (Arrives t (Heartbeat x ts nm))) evs))
         = Some \<lparr>userId_u = x, lastSeen = t,
                 isOnline = list_all (\<lambda>s. s - t < 30000) (sweepsOf evs)\<rparr>"
    by simp
  have b: "length (updateUserPresence t x True us)
           = (if find (\<lambda>u. userId_u u = x) us = None then Suc (length us) else length us)"
    by (auto simp: updateUserPresence_def split: option.splits)
  have c: "map isOnline (cleanupOfflineUsers now us)
           = map (\<lambda>u. isOnline u \<and> now - lastSeen u < 30000) us"
    "map lastSeen (cleanupOfflineUsers now us) = map lastSeen us"
    "map userId_u (cleanupOfflineUsers now us) = map userId_u us"
    by (simp_all add: cleanupOfflineUsers_def OFFLINE_THRESHOLD_def comp_def)
  from a b c show ?thesis by simp
qed

theorem presence_after_heartbeat_witness:
  "\<not> heardFrom ''site1'' [Sweep 12000, Sweep 42000]
   \<and> find (\<lambda>u. userId_u u = ''site1'')
       (onlineUsers (presence_run
          (presence_step
             (presence_step \<lparr>onlineUsers = [], commandError = None\<rparr>
                (Arrives 0 (Heartbeat ''site1'' 0 ''Site 1'')))
             (Arrives 9000 (Heartbeat ''site1'' 9000 ''Site 1'')))
          [Sweep 12000]))
     = Some \<lparr>userId_u = ''site1'', lastSeen = 9000, isOnline = True\<rparr>
   \<and> find (\<lambda>u. userId_u u = ''site1'')
       (onlineUsers (presence_run
          (presence_step
             (presence_step \<lparr>onlineUsers = [], commandError = None\<rparr>
                (Arrives 0 (Heartbeat ''site1'' 0 ''Site 1'')))
             (Arrives 9000 (Heartbeat ''site1'' 9000 ''Site 1'')))
          [Sweep 12000, Sweep 42000]))
     = Some \<lparr>userId_u = ''site1'', lastSeen = 9000, isOnline = False\<rparr>"
proof -
  let ?st = "presence_step \<lparr>onlineUsers = [], commandError = None\<rparr>
                (Arrives 0 (Heartbeat ''site1'' 0 ''Site 1''))"
  have h: "\<not> heardFrom ''site1'' [Sweep 12000, Sweep 42000]"
    and h': "\<not> heardFrom ''site1'' [Sweep 12000]"
    by simp_all
  from presence_after_heartbeat [OF h, of ?st 9000 9000 "''Site 1''"]
       presence_after_heartbeat [OF h', of ?st 9000 9000 "''Site 1''"]
  show ?thesis using h by simp
qed

section \<open>Credential refresh\<close>

text \<open>
  C6, as the code has it. While joined, the check that runs when the minute has passed
  calls \<open>generateToken\<close> once exactly when an expiry is stored, it is not \<open>0\<close>, and
  \<open>expiresAt - now < 300\<close> with \<open>now\<close> in whole seconds; with no expiry stored the
  interval is not installed and nothing is called. For a clock that is not negative
  and a check at most 60 seconds later: an expiry 3600 seconds ahead gives no call, an
  expiry 200 seconds ahead gives exactly one.
\<close>

theorem periodic_check_reissues:
  assumes "0 \<le> nowMs" and "0 \<le> d" and "d \<le> 60000"
  shows "(periodicCheck True tokenExpiresAt nowMs = 1
           \<longleftrightarrow> (case tokenExpiresAt of None \<Rightarrow> False
                 | Some x \<Rightarrow> x \<noteq> 0 \<and> x - nowMs div 1000 < 300))
       \<and> periodicCheck True tokenExpiresAt nowMs \<le> 1
       \<and> periodicCheck False tokenExpiresAt nowMs = 0
       \<and> periodicCheck True (Some (nowMs div 1000 + 3600)) (nowMs + d) = 0
       \<and> periodicCheck True (Some (nowMs div 1000 + 200)) (nowMs + d) = 1"
proof -
  have lo: "nowMs div 1000 \<le> (nowMs + d) div 1000"
    using assms by (intro zdiv_mono1) auto
  have "(nowMs + d) div 1000 \<le> (nowMs + 60000) div 1000"
    using assms by (intro zdiv_mono1) auto
  then have hi: "(nowMs + d) div 1000 \<le> nowMs div 1000 + 60" by simp
  have nn: "0 \<le> nowMs div 1000" using assms by simp
  show ?thesis using lo hi nn
    by (auto simp: periodicCheck_def intervalInstalled_def checkTokenExpiry_def isTokenExpired_def
          split: option.splits)
qed

theorem periodic_check_reissues_witness:
  "periodicCheck True (Some (1700000000 + 3600)) (1700000000000 + 60000) = 0
   \<and> periodicCheck True (Some (1700000000 + 200)) (1700000000000 + 60000) = 1"
proof -
  have h: "(0::int) \<le> 1700000000000" "(0::int) \<le> 60000" "(60000::int) \<le> 60000"
    by simp_all
  from periodic_check_reissues [OF h, of None] show ?thesis
    by simp
qed

text \<open>
  With no expiry stored \<open>isTokenExpired\<close> answers true, yet the periodic check makes
  no call: the effect returned before installing the interval.
\<close>

theorem periodic_check_no_expiry_counterexample:
  "\<not> (periodicCheck True None 1700000000000 = 1 \<longleftrightarrow> isTokenExpired None 1700000000000)"
  by (simp add: periodicCheck_def intervalInstalled_def isTokenExpired_def)

section \<open>Sending while not connected\<close>

text \<open>
  C7. When the hook does not hold the transport to be connected, \<open>sendCallSignal\<close>
  throws the error \<open>RTM not connected\<close> at once: the state is unchanged, no call id is
  allocated and the transport is not called. An \<open>initiateCall\<close> in an idle hook then
  leaves the call state \<open>IDLE\<close>, sends nothing and sets the error message (that of the
  thrown error, or the request for a target and a channel when one of them is empty).
\<close>

theorem not_connected_fails_fast:
  assumes "\<not> isConnected st" and "callState st = IDLE"
  shows "sendCallSignal e to chan ty st = (Inl (JsError ''RTM not connected''), st, [])
       \<and> callState (fst (handleInitiateCall e target st)) = IDLE
       \<and> error (fst (handleInitiateCall e target st))
           = Some (if target = [] \<or> channel st = []
                   then ''Please enter target user ID and channel'' else ''RTM not connected'')
       \<and> sentTo (snd (handleInitiateCall e target st)) = []"
  using assms
  by (simp add: sendCallSignal_def handleInitiateCall_def generateCallId_def handleError_def Let_def)

theorem not_connected_fails_fast_witness:
  "\<not> isConnected initialHook \<and> callState initialHook = IDLE
   \<and> callState (fst (handleInitiateCall
        \<lparr>idTime = 1000, idSuffix = ''abcdefghi'', sigTime = 1000, outcome = Delivered\<rparr>
        ''B'' initialHook)) = IDLE
   \<and> error (fst (handleInitiateCall
        \<lparr>idTime = 1000, idSuffix = ''abcdefghi'', sigTime = 1000, outcome = Delivered\<rparr>
        ''B'' initialHook)) = Some ''RTM not connected''"
proof -
  have h: "\<not> isConnected initialHook" "callState initialHook = IDLE"
    by (simp_all add: initialHook_def)
  have ch: "channel initialHook \<noteq> []"
    by (simp add: initialHook_def)
  from not_connected_fails_fast [OF h, of _ _ _ _ "''B''"] ch h show ?thesis
    by simp
qed

section \<open>Ending a call locally\<close>

text \<open>
  C8. On a local end of call in a state other than \<open>IDLE\<close>, the peer to notify is
  the \<open>from\<close> of the stored signal when there is one, else the dialled target. The
  transport is called at most once, with a \<open>CALL_ENDED\<close> addressed to that peer, and
  it is called when the peer is known, the hook is connected and a client is at hand.
  When no peer is known nothing is sent: the hook is reset to \<open>IDLE\<close> with no error,
  and only a warning is logged.
\<close>

theorem end_call_notifies_counterpart:
  assumes "callState st \<noteq> IDLE"
  shows "endTarget st = (case currentCall st of Some c \<Rightarrow> sig_from c | None \<Rightarrow> currentTargetUserId st)
       \<and> sentTo (snd (handleEndActiveCall e st))
           = (if endTarget st \<noteq> [] \<and> isConnected st \<and> outcome e \<noteq> NoClient
              then [(endTarget st, CALL_ENDED)] else [])
       \<and> (endTarget st = [] \<longrightarrow>
            handleEndActiveCall e st
              = (fst (resetCallState st),
                 [StopRingtone, ConsoleWarn ''No target user to notify about call end'',
                  StopRingtone])
            \<and> callState (fst (handleEndActiveCall e st)) = IDLE
            \<and> error (fst (handleEndActiveCall e st)) = None)"
  using assms
  by (auto simp: handleEndActiveCall_def endTarget_def sendCallSignal_def generateCallId_def
        handleError_def resetCallState_def Let_def
      split: option.splits send_outcome.splits)

theorem end_call_notifies_counterpart_witness:
  "callState (run initialHook
      [MessageFromPeer (Signal \<lparr>sig_type = INCOMING_CALL, sig_from = [], sig_to = ''B'',
         sig_channel = ''c1'', sig_timestamp = 1000, sig_callId = ''k''\<rparr>)]) \<noteq> IDLE
   \<and> endTarget (run initialHook
      [MessageFromPeer (Signal \<lparr>sig_type = INCOMING_CALL, sig_from = [], sig_to = ''B'',
         sig_channel = ''c1'', sig_timestamp = 1000, sig_callId = ''k''\<rparr>)]) = []
   \<and> callState (fst (handleEndActiveCall
        \<lparr>idTime = 3000, idSuffix = ''abcdefghi'', sigTime = 3000, outcome = Delivered\<rparr>
        (run initialHook
          [MessageFromPeer (Signal \<lparr>sig_type = INCOMING_CALL, sig_from = [], sig_to = ''B'',
             sig_channel = ''c1'', sig_timestamp = 1000, sig_callId = ''k''\<rparr>)]))) = IDLE
   \<and> sentTo (snd (handleEndActiveCall
        \<lparr>idTime = 3000, idSuffix = ''abcdefghi'', sigTime = 3000, outcome = Delivered\<rparr>
        (run initialHook
          [ConnectionStateChange ''CONNECTED'',
           MessageFromPeer (Signal \<lparr>sig_type = INCOMING_CALL, sig_from = ''A'', sig_to = ''B'',
             sig_channel = ''c1'', sig_timestamp = 1000, sig_callId = ''k''\<rparr>)])))
       = [(''A'', CALL_ENDED)]"
proof -
  let ?e = "\<lparr>idTime = 3000, idSuffix = ''abcdefghi'', sigTime = 3000, outcome = Delivered\<rparr>"
  let ?s1 = "run initialHook
      [MessageFromPeer (Signal \<lparr>sig_type = INCOMING_CALL, sig_from = [], sig_to = ''B'',
         sig_channel = ''c1'', sig_timestamp = 1000, sig_callId = ''k''\<rparr>)]"
  let ?s2 = "run initialHook
          [ConnectionStateChange ''CONNECTED'',
           MessageFromPeer (Signal \<lparr>sig_type = INCOMING_CALL, sig_from = ''A'', sig_to = ''B'',
             sig_channel = ''c1'', sig_timestamp = 1000, sig_callId = ''k''\<rparr>)]"
  have h1: "callState ?s1 \<noteq> IDLE" and t1: "endTarget ?s1 = []"
    by code_simp+
  have h2: "callState ?s2 \<noteq> IDLE" and t2: "endTarget ?s2 = ''A''" and c2: "isConnected ?s2"
    by code_simp+
  note r1 = end_call_notifies_counterpart [OF h1, of ?e, THEN conjunct2, THEN conjunct2, THEN mp, OF t1]
  note r2 = end_call_notifies_counterpart [OF h2, of ?e, THEN conjunct2, THEN conjunct1]
  have a: "callState (fst (handleEndActiveCall ?e ?s1)) = IDLE"
    using r1 by blast
  have b: "sentTo (snd (handleEndActiveCall ?e ?s2)) = [(''A'', CALL_ENDED)]"
    unfolding r2 t2 using c2 by simp
  from h1 t1 a b show ?thesis
    by blast
qed

section \<open>Messages that are not call signals\<close>

lemma readType_signalJson: "readType (signalJson s) = Inr (Some (JString (typeName (sig_type s))))"
  by (simp add: readType_def signalJson_def)

text \<open>
  On signals, heartbeats and texts that do not parse, the handlers of the typed view
  do what the handlers of raw messages do.
\<close>

lemma typeName_eq:
  "typeName ty = ''INCOMING_CALL'' \<longleftrightarrow> ty = INCOMING_CALL"
  "typeName ty = ''CALL_ACCEPTED'' \<longleftrightarrow> ty = CALL_ACCEPTED"
  "typeName ty = ''CALL_DECLINED'' \<longleftrightarrow> ty = CALL_DECLINED"
  "typeName ty = ''CALL_ENDED'' \<longleftrightarrow> ty = CALL_ENDED"
  by (cases ty; simp add: typeName_def)+

lemma handleCallSignal_raw_typed:
  "handleCallSignal_raw (signalJson s) (rawOf st)
     = Inr (rawOf (fst (handleCallSignal s st)), snd (handleCallSignal s st))"
  by (cases "sig_type s")
     (simp_all add: handleCallSignal_raw_def handleCallSignal_def readType_signalJson
        typeName_eq rawOf_def resetCallState_raw_def resetCallState_def)

lemma handleMessageFromPeer_raw_typed:
  "handleMessageFromPeer_raw (Inr (signalJson s)) (rawOf st)
     = (rawOf (fst (handleMessageFromPeer (Signal s) st)), snd (handleMessageFromPeer (Signal s) st))"
  "handleMessageFromPeer_raw (Inl m) (rawOf st)
     = (rawOf (fst (handleMessageFromPeer (Malformed m) st)),
        snd (handleMessageFromPeer (Malformed m) st))"
proof -
  show "handleMessageFromPeer_raw (Inr (signalJson s)) (rawOf st)
     = (rawOf (fst (handleMessageFromPeer (Signal s) st)), snd (handleMessageFromPeer (Signal s) st))"
    by (simp add: handleMessageFromPeer_raw_def handleMessageFromPeer_def
          handleCallSignal_raw_typed)
  show "handleMessageFromPeer_raw (Inl m) (rawOf st)
     = (rawOf (fst (handleMessageFromPeer (Malformed m) st)),
        snd (handleMessageFromPeer (Malformed m) st))"
    by (simp add: handleMessageFromPeer_raw_def handleMessageFromPeer_def
          handleError_raw_def handleError_def rawOf_def)
qed

text \<open>
  C9, as the code has it. On both paths: a text that \<open>JSON.parse\<close> rejects, and
  the text \<open>null\<close>, leave call state and stored call alone, but the failure is logged
  and the message of the exception becomes the error shown to the user. A value whose
  \<open>type\<close> is none of the four signal types, a heartbeat among them, changes
  nothing and logs nothing. A value whose \<open>type\<close> is one of the four is applied as
  a signal even when it has no other member: the call state it leads to depends on
  that \<open>type\<close> alone, and \<open>{"type":"CALL_ENDED"}\<close> resets the call.
\<close>

theorem non_signal_message_effect:
  assumes "readType v = Inr ty" and "ty \<notin> Some ` JString ` signalTypeNames"
  shows "handleMessageFromPeer_raw (Inr v) st = (st, [])
       \<and> handleChannelMessage_raw (Inr v) st = (st, [])
       \<and> handleMessageFromPeer_raw (Inl m) st
           = (st\<lparr>error_raw := Some m\<rparr>, [ConsoleError ''Failed to parse peer message''])
       \<and> handleChannelMessage_raw (Inl m) st
           = (st\<lparr>error_raw := Some m\<rparr>, [ConsoleError ''Failed to parse channel message''])
       \<and> handleMessageFromPeer_raw (Inr JNull) st
           = (st\<lparr>error_raw := Some typeErrorOfNull\<rparr>,
              [ConsoleError ''Failed to parse peer message''])
       \<and> handleChannelMessage_raw (Inr JNull) st
           = (st\<lparr>error_raw := Some typeErrorOfNull\<rparr>,
              [ConsoleError ''Failed to parse channel message''])
       \<and> readType (heartbeatJson u t n) = Inr (Some (JString ''heartbeat''))
       \<and> Some (JString ''heartbeat'') \<notin> Some ` JString ` signalTypeNames
       \<and> handleMessageFromPeer_raw (Inr (JObject [(''type'', JString ''CALL_ENDED'')])) st
           = (fst (resetCallState_raw st), [StopRingtone, StopRingtone])
       \<and> callState_raw (fst (handleMessageFromPeer_raw (Inr w) st))
           = (if readType w = Inr (Some (JString ''INCOMING_CALL'')) then RINGING
              else if readType w = Inr (Some (JString ''CALL_ACCEPTED'')) then CONNECTED
              else if readType w = Inr (Some (JString ''CALL_DECLINED'')) then IDLE
              else if readType w = Inr (Some (JString ''CALL_ENDED'')) then IDLE
              else callState_raw st)"
proof -
  from assms(2) have n: "ty \<noteq> Some (JString ''INCOMING_CALL'')"
    "ty \<noteq> Some (JString ''CALL_ACCEPTED'')" "ty \<noteq> Some (JString ''CALL_DECLINED'')"
    "ty \<noteq> Some (JString ''CALL_ENDED'')"
    by (auto simp: signalTypeNames_def)
  have s: "handleCallSignal_raw v st = Inr (st, [])"
    using assms(1) n by (simp add: handleCallSignal_raw_def)
  have a: "handleMessageFromPeer_raw (Inr v) st = (st, [])"
    by (simp add: handleMessageFromPeer_raw_def s)
  have b: "handleChannelMessage_raw (Inr v) st = (st, [])"
    by (simp add: handleChannelMessage_raw_def s assms(1))
  have c: "handleMessageFromPeer_raw (Inl m) st
        = (st\<lparr>error_raw := Some m\<rparr>, [ConsoleError ''Failed to parse peer message''])"
    "handleChannelMessage_raw (Inl m) st
        = (st\<lparr>error_raw := Some m\<rparr>, [ConsoleError ''Failed to parse channel message''])"
    by (simp_all add: handleMessageFromPeer_raw_def handleChannelMessage_raw_def
          handleError_raw_def)
  have d: "handleMessageFromPeer_raw (Inr JNull) st
        = (st\<lparr>error_raw := Some typeErrorOfNull\<rparr>, [ConsoleError ''Failed to parse peer message''])"
    "handleChannelMessage_raw (Inr JNull) st
        = (st\<lparr>error_raw := Some typeErrorOfNull\<rparr>,
           [ConsoleError ''Failed to parse channel message''])"
    by (simp_all add: handleMessageFromPeer_raw_def handleChannelMessage_raw_def
          handleCallSignal_raw_def readType_def handleError_raw_def)
  have e: "readType (heartbeatJson u t n) = Inr (Some (JString ''heartbeat''))"
    "Some (JString ''heartbeat'') \<notin> Some ` JString ` signalTypeNames"
    by (auto simp: readType_def heartbeatJson_def signalTypeNames_def)
  have f: "handleMessageFromPeer_raw (Inr (JObject [(''type'', JString ''CALL_ENDED'')])) st
        = (fst (resetCallState_raw st), [StopRingtone, StopRingtone])"
    by (simp add: handleMessageFromPeer_raw_def handleCallSignal_raw_def readType_def
          resetCallState_raw_def)
  have g: "callState_raw (fst (handleMessageFromPeer_raw (Inr w) st))
        = (if readType w = Inr (Some (JString ''INCOMING_CALL'')) then RINGING
           else if readType w = Inr (Some (JString ''CALL_ACCEPTED'')) then CONNECTED
           else if readType w = Inr (Some (JString ''CALL_DECLINED'')) then IDLE
           else if readType w = Inr (Some (JString ''CALL_ENDED'')) then IDLE
           else callState_raw st)"
    by (cases "readType w")
       (simp_all add: handleMessageFromPeer_raw_def handleCallSignal_raw_def
          handleError_raw_def resetCallState_raw_def)
  from a b c d e f g show ?thesis by blast
qed

theorem non_signal_message_effect_witness:
  "readType (heartbeatJson ''site1'' 5000 ''Site 1'') = Inr (Some (JString ''heartbeat''))
   \<and> Some (JString ''heartbeat'') \<notin> Some ` JString ` signalTypeNames
   \<and> handleMessageFromPeer_raw (Inr (heartbeatJson ''site1'' 5000 ''Site 1'')) (rawOf initialHook)
       = (rawOf initialHook, [])
   \<and> handleChannelMessage_raw (Inr (heartbeatJson ''site1'' 5000 ''Site 1'')) (rawOf initialHook)
       = (rawOf initialHook, [])"
proof -
  have h: "readType (heartbeatJson ''site1'' 5000 ''Site 1'') = Inr (Some (JString ''heartbeat''))"
    "Some (JString ''heartbeat'') \<notin> Some ` JString ` signalTypeNames"
    by (auto simp: readType_def heartbeatJson_def signalTypeNames_def)
  from non_signal_message_effect [OF h, of "rawOf initialHook"] h show ?thesis
    by blast
qed

text \<open>A peer message that is not JSON sets the error of a freshly mounted hook.\<close>

theorem malformed_sets_error_counterexample:
  "\<not> (error (fst (handleMessageFromPeer (Malformed ''Unexpected end of JSON input'') initialHook))
        = error initialHook)"
  by (simp add: handleMessageFromPeer_def handleError_def initialHook_def)

section \<open>A local end of call whose send fails\<close>

text \<open>
  C10, as the code has it. When the send of \<open>CALL_ENDED\<close> throws during a local end
  of call, the hook is not reset: call state and stored call are unchanged and the
  error is set (to the message of the thrown error, or to \<open>Failed to end call\<close> when
  the thrown value is no \<open>Error\<close>). The ref is unchanged when the hook is not
  connected or already holds an id; when the hook is connected and the ref is empty,
  the id allocated before the failing send stays in the ref.
\<close>

theorem failed_end_call_keeps_call:
  assumes "callState st \<noteq> IDLE" and "endTarget st \<noteq> []"
    and "fst (sendCallSignal e (endTarget st) (channel st) CALL_ENDED st) = Inl err"
  shows "callState (fst (handleEndActiveCall e st)) = callState st
       \<and> currentCall (fst (handleEndActiveCall e st)) = currentCall st
       \<and> fst (handleEndActiveCall e st)
       = st\<lparr>error := Some (case err of JsError m \<Rightarrow> m | NonError \<Rightarrow> ''Failed to end call''),
            currentCallIdRef :=
              (if isConnected st \<and> (currentCallIdRef st = None \<or> currentCallIdRef st = Some [])
               then Some (''call_'' @ showNat (idTime e) @ ''_'' @ idSuffix e)
               else currentCallIdRef st)\<rparr>"
  using assms
  by (auto simp: handleEndActiveCall_def sendCallSignal_def generateCallId_def
        handleError_def Let_def
      split: option.splits send_outcome.splits if_splits thrown.splits)

theorem failed_end_call_keeps_call_witness:
  "callState (fst (handleEndActiveCall
      \<lparr>idTime = 3000, idSuffix = ''abcdefghi'', sigTime = 3000, outcome = Delivered\<rparr>
      (run initialHook
        [MessageFromPeer (Signal \<lparr>sig_type = INCOMING_CALL, sig_from = ''A'', sig_to = ''B'',
           sig_channel = ''c1'', sig_timestamp = 1000, sig_callId = ''k''\<rparr>)]))) = RINGING
   \<and> error (fst (handleEndActiveCall
      \<lparr>idTime = 3000, idSuffix = ''abcdefghi'', sigTime = 3000, outcome = Delivered\<rparr>
      (run initialHook
        [MessageFromPeer (Signal \<lparr>sig_type = INCOMING_CALL, sig_from = ''A'', sig_to = ''B'',
           sig_channel = ''c1'', sig_timestamp = 1000, sig_callId = ''k''\<rparr>)]))) = Some ''RTM not connected''
   \<and> currentCallIdRef (fst (handleEndActiveCall
      \<lparr>idTime = 3000, idSuffix = ''abcdefghi'', sigTime = 3000, outcome = Delivered\<rparr>
      (run initialHook
        [MessageFromPeer (Signal \<lparr>sig_type = INCOMING_CALL, sig_from = ''A'', sig_to = ''B'',
           sig_channel = ''c1'', sig_timestamp = 1000, sig_callId = ''k''\<rparr>)]))) = None"
proof -
  let ?e = "\<lparr>idTime = 3000, idSuffix = ''abcdefghi'', sigTime = 3000, outcome = Delivered\<rparr>"
  let ?s = "run initialHook
        [MessageFromPeer (Signal \<lparr>sig_type = INCOMING_CALL, sig_from = ''A'', sig_to = ''B'',
           sig_channel = ''c1'', sig_timestamp = 1000, sig_callId = ''k''\<rparr>)]"
  have h: "callState ?s \<noteq> IDLE" "endTarget ?s \<noteq> []"
    "fst (sendCallSignal ?e (endTarget ?s) (channel ?s) CALL_ENDED ?s) = Inl (JsError ''RTM not connected'')"
    by code_simp+
  have v: "callState ?s = RINGING" "isConnected ?s = False" "currentCallIdRef ?s = None"
    by code_simp+
  from failed_end_call_keeps_call [OF h] v show ?thesis
    by simp
qed

text \<open>
  A ringing, connected hook with an empty ref ends the call while the transport rejects
  the send: the ref then holds a fresh id.
\<close>

theorem failed_end_call_callId_counterexample:
  "\<not> (currentCallIdRef (fst (handleEndActiveCall
          \<lparr>idTime = 3000, idSuffix = ''abcdefghi'', sigTime = 3000,
            outcome = SendRejected NonError\<rparr>
          (run initialHook
            [ConnectionStateChange ''CONNECTED'',
             MessageFromPeer (Signal \<lparr>sig_type = INCOMING_CALL, sig_from = ''A'', sig_to = ''B'',
               sig_channel = ''c1'', sig_timestamp = 1000, sig_callId = ''k''\<rparr>)])))
       = currentCallIdRef (run initialHook
            [ConnectionStateChange ''CONNECTED'',
             MessageFromPeer (Signal \<lparr>sig_type = INCOMING_CALL, sig_from = ''A'', sig_to = ''B'',
               sig_channel = ''c1'', sig_timestamp = 1000, sig_callId = ''k''\<rparr>)]))"
  by code_simp

end
